theory Spec2Isabelle
  imports Complex_Main
begin

section \<open>Python values and strings\<close>

text \<open>
  A Python \<open>str\<close> is modelled as a \<open>string\<close> whose characters are the code points
  0..255; text with code points beyond that range is outside the model. JSON values, as
  \<open>json\<close> parses them, are \<open>pyval\<close>s (floats are left out: no function below looks
  inside a number).
\<close>

datatype pyval =
    PNone
  | PBool bool
  | PInt int
  | PStr string
  | PList "pyval list"
  | PDict "(string \<times> pyval) list"

text \<open>The name \<open>type(v).__name__\<close>, as it appears in an AttributeError's message.\<close>

fun type_name :: "pyval \<Rightarrow> string" where
  "type_name PNone = ''NoneType''"
| "type_name (PBool _) = ''bool''"
| "type_name (PInt _) = ''int''"
| "type_name (PStr _) = ''str''"
| "type_name (PList _) = ''list''"
| "type_name (PDict _) = ''dict''"

definition no_attribute :: "pyval \<Rightarrow> string \<Rightarrow> string" where
  "no_attribute v attr =
     [CHR 0x27] @ type_name v @ [CHR 0x27] @ '' object has no attribute '' @
     [CHR 0x27] @ attr @ [CHR 0x27]"

text \<open>\<open>str.lower()\<close> on the code points 0..255: A-Z and the capital letters of Latin-1.\<close>

definition lower_char :: "char \<Rightarrow> char" where
  "lower_char c =
     (let n = (of_char c :: nat) in
      if (65 \<le> n \<and> n \<le> 90) \<or> (192 \<le> n \<and> n \<le> 222 \<and> n \<noteq> 215)
      then char_of (n + 32) else c)"

definition lower :: "string \<Rightarrow> string" where
  "lower s = map lower_char s"

text \<open>\<open>str.isspace()\<close> of one character, on the code points 0..255.\<close>

definition is_space :: "char \<Rightarrow> bool" where
  "is_space c =
     (let n = (of_char c :: nat) in
      (9 \<le> n \<and> n \<le> 13) \<or> (28 \<le> n \<and> n \<le> 32) \<or> n = 133 \<or> n = 160)"

text \<open>\<open>str.strip()\<close> with no argument.\<close>

definition strip :: "string \<Rightarrow> string" where
  "strip s = rev (dropWhile is_space (rev (dropWhile is_space s)))"

text \<open>\<open>s.startswith(pre)\<close> and the substring test \<open>sub in s\<close>.\<close>

fun starts_with :: "string \<Rightarrow> string \<Rightarrow> bool" where
  "starts_with s [] = True"
| "starts_with [] (p # ps) = False"
| "starts_with (c # cs) (p # ps) = (c = p \<and> starts_with cs ps)"

fun py_in :: "string \<Rightarrow> string \<Rightarrow> bool" where
  "py_in sub [] = (sub = [])"
| "py_in sub (c # cs) = (starts_with (c # cs) sub \<or> py_in sub cs)"

text \<open>\<open>any(word in s for word in words)\<close>.\<close>

definition any_in :: "string list \<Rightarrow> string \<Rightarrow> bool" where
  "any_in words s = list_ex (\<lambda>word. py_in word s) words"

text \<open>\<open>str(n)\<close> for an integer.\<close>

definition digit_char :: "nat \<Rightarrow> char" where
  "digit_char d = char_of (48 + d)"

fun show_nat :: "nat \<Rightarrow> string" where
  "show_nat n = (if n < 10 then [digit_char n] else show_nat (n div 10) @ [digit_char (n mod 10)])"

declare show_nat.simps [simp del]

definition show_int :: "int \<Rightarrow> string" where
  "show_int i = (if i < 0 then CHR ''-'' # show_nat (nat (- i)) else show_nat (nat i))"

section \<open>The clock\<close>

text \<open>
  A \<open>datetime\<close> value, and \<open>strftime('%Y-%m-%d %H:%M:%S')\<close>: two digits for every
  field but the year, which the C library prints without padding.
\<close>

record datetime =
  year :: nat
  month :: nat
  day :: nat
  hour :: nat
  minute :: nat
  second :: nat

definition two_digits :: "nat \<Rightarrow> string" where
  "two_digits n = (if n < 10 then CHR ''0'' # show_nat n else show_nat n)"

definition strftime :: "datetime \<Rightarrow> string" where
  "strftime d =
     show_nat (year d) @ ''-'' @ two_digits (month d) @ ''-'' @ two_digits (day d) @ '' '' @
     two_digits (hour d) @ '':'' @ two_digits (minute d) @ '':'' @ two_digits (second d)"

text \<open>The values \<open>datetime.now()\<close> can have: a four-digit year and fields in range.\<close>

definition valid_datetime :: "datetime \<Rightarrow> bool" where
  "valid_datetime d =
     (1000 \<le> year d \<and> year d \<le> 9999 \<and> 1 \<le> month d \<and> month d \<le> 12 \<and>
      1 \<le> day d \<and> day d \<le> 31 \<and> hour d \<le> 23 \<and> minute d \<le> 59 \<and> second d \<le> 59)"

text \<open>
  The shape \<open>YYYY-MM-DD HH:MM:SS\<close>: in the mask, \<open>d\<close> stands for a decimal digit and
  every other character for itself.
\<close>

definition is_digit :: "char \<Rightarrow> bool" where
  "is_digit c = (let n = (of_char c :: nat) in 48 \<le> n \<and> n \<le> 57)"

fun match_mask :: "string \<Rightarrow> string \<Rightarrow> bool" where
  "match_mask [] [] = True"
| "match_mask (m # ms) (c # cs) =
     ((if m = CHR ''d'' then is_digit c else c = m) \<and> match_mask ms cs)"
| "match_mask _ _ = False"

definition timestamp_shape :: "string \<Rightarrow> bool" where
  "timestamp_shape s = match_mask ''dddd-dd-dd dd:dd:dd'' s"

section \<open>The fallback responder\<close>

definition DEFAULT_AI_MODEL :: string where
  "DEFAULT_AI_MODEL = ''llama2''"

definition greeting_reply :: string where
  "greeting_reply =
     ''Hi there! I'' @ [CHR 0x27] @ ''m your local AI ('' @ DEFAULT_AI_MODEL @
     '') running offline on your computer.''"

definition identity_reply :: string where
  "identity_reply =
     ''I'' @ [CHR 0x27] @ ''m LocalAIHub, your offline AI assistant using the '' @
     DEFAULT_AI_MODEL @ '' model.''"

definition capability_reply :: string where
  "capability_reply =
     ''I can answer questions and help with tasks, all offline for privacy and speed.''"

definition time_reply :: "datetime \<Rightarrow> string" where
  "time_reply now = ''It'' @ [CHR 0x27] @ ''s currently '' @ strftime now @ ''.''"

definition generic_reply :: "string \<Rightarrow> string" where
  "generic_reply user_input =
     ''I'' @ [CHR 0x27] @ ''m your offline AI ('' @ DEFAULT_AI_MODEL @ ''). You said: '' @
     [CHR 0x27] @ take 50 user_input @ ''...'' @ [CHR 0x27] @
     '' - I'' @ [CHR 0x27] @ ''m handling this locally for privacy.''"

text \<open>
  \<open>LocalAIHub._create_fallback_response\<close>. The reading of \<open>datetime.now()\<close> is the
  parameter \<open>now\<close>; the source reads it in the fourth branch only.
\<close>

definition create_fallback_response :: "datetime \<Rightarrow> string \<Rightarrow> string" where
  "create_fallback_response now user_input =
     (let input_lower = lower user_input in
      if any_in [''hello'', ''hi'', ''hey''] input_lower then greeting_reply
      else if any_in [''who'', ''what are you''] input_lower then identity_reply
      else if any_in [''help'', ''what can you do''] input_lower then capability_reply
      else if py_in ''time'' input_lower then time_reply now
      else generic_reply user_input)"

text \<open>
  The responder in the words of its specification: an ordered table of trigger words and
  reply templates, searched from the top against the lowercased prompt; the first row
  with a trigger that occurs in it gives the reply, and the generic reply is the default.
\<close>

definition fallback_rules :: "(string list \<times> (datetime \<Rightarrow> string)) list" where
  "fallback_rules =
     [([''hello'', ''hi'', ''hey''], \<lambda>now. greeting_reply),
      ([''who'', ''what are you''], \<lambda>now. identity_reply),
      ([''help'', ''what can you do''], \<lambda>now. capability_reply),
      ([''time''], \<lambda>now. time_reply now)]"

definition spec_fallback :: "datetime \<Rightarrow> string \<Rightarrow> string" where
  "spec_fallback now prompt =
     (case find (\<lambda>rule. any_in (fst rule) (lower prompt)) fallback_rules of
        Some rule \<Rightarrow> snd rule now
      | None \<Rightarrow> generic_reply prompt)"

section \<open>The backend client\<close>

text \<open>
  The body of the POST request, and what \<open>requests.post\<close> does with it. The reply is
  an input of the model: a status code with the outcome of \<open>response.json()\<close>, or the
  exception raised, classified by the first \<open>except\<close> clause that catches it.
\<close>

record request_data =
  rd_model :: pyval
  rd_prompt :: string
  rd_stream :: bool

datatype json_outcome = JsonOk pyval | JsonRaises string

datatype backend_reply =
    HttpReply int json_outcome
  | RaisesConnectionError
  | RaisesTimeout
  | RaisesOther string

text \<open>
  \<open>result.get("response", "No response generated")\<close>: the keys of a parsed JSON object
  are distinct, so the first binding of the association list is the only one.
\<close>

definition get_response :: "pyval \<Rightarrow> string + pyval" where
  "get_response result =
     (case result of
        PDict d \<Rightarrow>
          (case map_of d ''response'' of
             None \<Rightarrow> Inr (PStr ''No response generated'')
           | Some v \<Rightarrow> Inr v)
      | _ \<Rightarrow> Inl (no_attribute result ''get''))"

text \<open>
  \<open>LocalAIHub._query_ollama\<close>, after the request was sent: the pair (response, error) it
  returns, where \<open>PNone\<close> is Python's \<open>None\<close> response and \<open>None\<close> its \<open>None\<close> error.
\<close>

definition classify_reply :: "backend_reply \<Rightarrow> pyval \<times> string option" where
  "classify_reply reply =
     (case reply of
        HttpReply status_code body \<Rightarrow>
          if status_code = 200 then
            (case body of
               JsonOk result \<Rightarrow>
                 (case get_response result of
                    Inr v \<Rightarrow> (v, None)
                  | Inl e \<Rightarrow> (PNone, Some (''Something went wrong: '' @ e)))
             | JsonRaises e \<Rightarrow> (PNone, Some (''Something went wrong: '' @ e)))
          else (PNone, Some (''Ollama API error: '' @ show_int status_code))
      | RaisesConnectionError \<Rightarrow>
          (PNone, Some (''Ollama isn'' @ [CHR 0x27] @ ''t running - please start it!''))
      | RaisesTimeout \<Rightarrow> (PNone, Some ''Request took too long'')
      | RaisesOther e \<Rightarrow> (PNone, Some (''Something went wrong: '' @ e)))"

section \<open>The orchestrator\<close>

text \<open>
  What one call of \<open>generate_response\<close> reads from outside the program: the two readings
  of \<open>time.time()\<close>, the backend, the local time read by the fallback responder, the
  UTC timestamp of the log entry, and whether appending to the log file raises.
\<close>

datatype write_outcome = Written | WriteRaises string

record call_env =
  time_start :: rat
  time_end :: rat
  backend :: "request_data \<Rightarrow> backend_reply"
  now_local :: datetime
  utc_timestamp :: string
  log_write :: write_outcome

record log_entry =
  le_timestamp :: string
  le_user_input :: string
  le_ai_response :: pyval
  le_model :: pyval
  le_time_taken_seconds :: rat
  le_error :: "string option"
  le_request_id :: int

record generation_result =
  response :: pyval
  model :: pyval
  time_taken_seconds :: rat
  offline :: bool
  request_id :: int

text \<open>The instance: \<open>self.start_time\<close> and \<open>self.total_requests\<close>.\<close>

record hub =
  start_time :: rat
  total_requests :: int

definition LocalAIHub_init :: "rat \<Rightarrow> hub" where
  "LocalAIHub_init t = \<lparr>start_time = t, total_requests = 0\<rparr>"

text \<open>
  The effects of the program, in program order: the store to \<open>self.total_requests\<close>, the
  request sent to the backend, the line appended to the log file and the line printed.
  The world is the log file's records and the trace of effects so far.
\<close>

datatype event =
    SetTotalRequests int
  | PostBackend request_data
  | AppendLog log_entry
  | PrintLine string

record world =
  log_file :: "log_entry list"
  trace :: "event list"

text \<open>
  \<open>round(x, 3)\<close>: to the nearest multiple of 1/1000, a tie to the even one. Seconds are
  rationals here; the rounding of binary floating point is not modelled.
\<close>

definition round_half_even :: "rat \<Rightarrow> int" where
  "round_half_even x =
     (let f = \<lfloor>x\<rfloor>; d = x - of_int f in
      if d < 1 / 2 then f
      else if 1 / 2 < d then f + 1
      else if even f then f else f + 1)"

definition py_round3 :: "rat \<Rightarrow> rat" where
  "py_round3 x = of_int (round_half_even (x * 1000)) / 1000"

text \<open>\<open>LocalAIHub._save_interaction\<close>.\<close>

definition save_interaction ::
  "hub \<Rightarrow> call_env \<Rightarrow> world \<Rightarrow> string \<Rightarrow> pyval \<Rightarrow> pyval \<Rightarrow> rat \<Rightarrow> string option \<Rightarrow> world" where
  "save_interaction self env w user_input ai_response mdl time_taken error =
     (let entry = \<lparr>le_timestamp = utc_timestamp env,
                   le_user_input = user_input,
                   le_ai_response = ai_response,
                   le_model = mdl,
                   le_time_taken_seconds = py_round3 time_taken,
                   le_error = error,
                   le_request_id = total_requests self\<rparr> in
      case log_write env of
        Written \<Rightarrow> w\<lparr>log_file := log_file w @ [entry], trace := trace w @ [AppendLog entry]\<rparr>
      | WriteRaises e \<Rightarrow> w\<lparr>trace := trace w @ [PrintLine (''Could not save log: '' @ e)]\<rparr>)"

text \<open>
  \<open>LocalAIHub._query_ollama\<close>: sends the request (an effect in the trace) and
  classifies the backend's reply to it.
\<close>

definition query_ollama ::
  "call_env \<Rightarrow> world \<Rightarrow> string \<Rightarrow> pyval \<Rightarrow> (pyval \<times> string option) \<times> world" where
  "query_ollama env w user_input mdl =
     (let request = \<lparr>rd_model = mdl, rd_prompt = user_input, rd_stream = False\<rparr> in
      (classify_reply (backend env request), w\<lparr>trace := trace w @ [PostBackend request]\<rparr>))"

text \<open>\<open>LocalAIHub.generate_response\<close>: the result, the instance and the world after it.\<close>

definition generate_response ::
  "hub \<Rightarrow> world \<Rightarrow> call_env \<Rightarrow> string \<Rightarrow> pyval \<Rightarrow> generation_result \<times> hub \<times> world" where
  "generate_response self w env user_input mdl =
     (let t0 = time_start env;
          self1 = self\<lparr>total_requests := total_requests self + 1\<rparr>;
          w1 = w\<lparr>trace := trace w @ [SetTotalRequests (total_requests self1)]\<rparr>;
          ((resp, err), w2) = query_ollama env w1 user_input mdl;
          (resp', model_used, err') =
            (if resp = PNone
             then (PStr (create_fallback_response (now_local env) user_input),
                   PStr ''fallback-response'', err)
             else (resp, mdl, None));
          time_taken = time_end env - t0;
          w3 = save_interaction self1 env w2 user_input resp' model_used time_taken err'
      in (\<lparr>response = resp',
           model = model_used,
           time_taken_seconds = py_round3 time_taken,
           offline = True,
           request_id = total_requests self1\<rparr>, self1, w3))"

text \<open>A single-threaded caller: one call after the other on the same instance.\<close>

fun run_calls ::
  "hub \<Rightarrow> world \<Rightarrow> (call_env \<times> string \<times> pyval) list \<Rightarrow> generation_result list \<times> hub \<times> world" where
  "run_calls self w [] = ([], self, w)"
| "run_calls self w ((env, user_input, mdl) # calls) =
     (case generate_response self w env user_input mdl of
        (r, self', w') \<Rightarrow>
          (case run_calls self' w' calls of
             (rs, self'', w'') \<Rightarrow> (r # rs, self'', w'')))"

section \<open>The /generate handler\<close>

text \<open>
  \<open>request.get_json()\<close> raises, or returns \<open>None\<close> or the JSON object of the body (a
  body that parses to a JSON array, string or number is outside the model). The reply is
  the JSON rendered by \<open>jsonify\<close> with its status code.
\<close>

datatype get_json_outcome =
    GetJsonRaises string
  | GetJson "(string \<times> pyval) list option"

datatype http_body = ErrorBody string | ResultBody generation_result

record http_reply =
  status :: nat
  body :: http_body

definition missing_prompt_reply :: http_reply where
  "missing_prompt_reply =
     \<lparr>status = 400,
      body = ErrorBody (''Please include a '' @ [CHR 0x27] @ ''prompt'' @ [CHR 0x27] @
                        '' in your request'')\<rparr>"

definition empty_prompt_reply :: http_reply where
  "empty_prompt_reply = \<lparr>status = 400, body = ErrorBody ''Prompt cannot be empty''\<rparr>"

definition internal_error_reply :: "string \<Rightarrow> http_reply" where
  "internal_error_reply e = \<lparr>status = 500, body = ErrorBody (''Something went wrong: '' @ e)\<rparr>"

definition generate ::
  "hub \<Rightarrow> world \<Rightarrow> call_env \<Rightarrow> get_json_outcome \<Rightarrow> http_reply \<times> hub \<times> world" where
  "generate ai_hub w env req =
     (case req of
        GetJsonRaises e \<Rightarrow> (internal_error_reply e, ai_hub, w)
      | GetJson None \<Rightarrow> (missing_prompt_reply, ai_hub, w)
      | GetJson (Some data) \<Rightarrow>
          if data = [] then (missing_prompt_reply, ai_hub, w)
          else
            (case map_of data ''prompt'' of
               None \<Rightarrow> (missing_prompt_reply, ai_hub, w)
             | Some prompt \<Rightarrow>
                 (let mdl = (case map_of data ''model'' of
                               None \<Rightarrow> PStr DEFAULT_AI_MODEL
                             | Some m \<Rightarrow> m) in
                  case prompt of
                    PStr user_input \<Rightarrow>
                      if strip user_input = [] then (empty_prompt_reply, ai_hub, w)
                      else
                        (case generate_response ai_hub w env user_input mdl of
                           (result, ai_hub', w') \<Rightarrow>
                             (\<lparr>status = 200, body = ResultBody result\<rparr>, ai_hub', w'))
                  | _ \<Rightarrow> (internal_error_reply (no_attribute prompt ''strip''), ai_hub, w))))"

section \<open>Overlapping calls\<close>

text \<open>
  The source takes no lock, so when the server handles requests on several threads the
  statements of two calls of \<open>generate_response\<close> can interleave. Of one call, only the
  accesses to \<open>self.total_requests\<close> matter here: line 100 loads the counter and stores
  the incremented value, line 123 reads it again for the result's \<open>request_id\<close>.
\<close>

datatype call_pc =
    NotStarted
  | Loaded int
  | Incremented
  | Returned int

text \<open>One step of one call on the shared counter.\<close>

fun step_call :: "int \<Rightarrow> call_pc \<Rightarrow> int \<times> call_pc" where
  "step_call c NotStarted = (c, Loaded c)"
| "step_call c (Loaded v) = (v + 1, Incremented)"
| "step_call c Incremented = (c, Returned c)"
| "step_call c (Returned r) = (c, Returned r)"

text \<open>
  A schedule names, step by step, the call that runs next; a name beyond the calls
  changes nothing.
\<close>

definition step_schedule :: "int \<times> call_pc list \<Rightarrow> nat \<Rightarrow> int \<times> call_pc list" where
  "step_schedule s i =
     (case s of (c, pcs) \<Rightarrow>
        if i < length pcs
        then (case step_call c (pcs ! i) of (c', pc') \<Rightarrow> (c', pcs[i := pc']))
        else (c, pcs))"

definition run_schedule :: "nat list \<Rightarrow> int \<times> call_pc list \<Rightarrow> int \<times> call_pc list" where
  "run_schedule sched s = foldl step_schedule s sched"

text \<open>The schedule of \<open>n\<close> calls that do not overlap: each runs its three steps in turn.\<close>

definition sequential_schedule :: "nat \<Rightarrow> nat list" where
  "sequential_schedule n = concat (map (\<lambda>i. [i, i, i]) [0..<n])"

section \<open>Decimal digits and the timestamp\<close>

lemma is_digit_digit_char: "d < 10 \<Longrightarrow> is_digit (digit_char d)"
  by (simp add: is_digit_def digit_char_def)

lemma show_nat_digits: "list_all is_digit (show_nat n)"
proof (induction n rule: show_nat.induct)
  case (1 n)
  show ?case
  proof (cases "n < 10")
    case True
    then show ?thesis by (subst show_nat.simps) (simp add: is_digit_digit_char)
  next
    case False
    with 1 show ?thesis by (subst show_nat.simps) (simp add: is_digit_digit_char)
  qed
qed

lemma length_show_nat_1: "n < 10 \<Longrightarrow> length (show_nat n) = 1"
  by (subst show_nat.simps) simp

lemma length_show_nat_2: "10 \<le> n \<Longrightarrow> n < 100 \<Longrightarrow> length (show_nat n) = 2"
  by (subst show_nat.simps) (simp add: length_show_nat_1)

lemma length_show_nat_3: "100 \<le> n \<Longrightarrow> n < 1000 \<Longrightarrow> length (show_nat n) = 3"
  by (subst show_nat.simps) (simp add: length_show_nat_2)

lemma length_show_nat_4: "1000 \<le> n \<Longrightarrow> n < 10000 \<Longrightarrow> length (show_nat n) = 4"
  by (subst show_nat.simps) (simp add: length_show_nat_3)

lemma two_digits_ok: "n < 100 \<Longrightarrow> length (two_digits n) = 2 \<and> list_all is_digit (two_digits n)"
  by (simp add: two_digits_def length_show_nat_1 length_show_nat_2 show_nat_digits is_digit_def)

lemma match_mask_digits:
  "list_all is_digit ds \<Longrightarrow>
   match_mask (replicate (length ds) (CHR ''d'') @ ms) (ds @ cs) = match_mask ms cs"
  by (induction ds) auto

lemma match_two:
  assumes "n < 100"
  shows "match_mask (CHR ''d'' # CHR ''d'' # ms) (two_digits n @ cs) = match_mask ms cs"
proof -
  from assms have l: "length (two_digits n) = 2" and d: "list_all is_digit (two_digits n)"
    using two_digits_ok by blast+
  have "replicate (length (two_digits n)) (CHR ''d'') = ''dd''"
    by (simp add: l numeral_2_eq_2)
  with match_mask_digits [OF d, of ms cs] show ?thesis by simp
qed

lemma match_two_end:
  assumes "n < 100"
  shows "match_mask (CHR ''d'' # CHR ''d'' # []) (two_digits n) = True"
  using match_two [OF assms, of "[]" "[]"] by simp

lemma match_four:
  assumes "length ds = 4" "list_all is_digit ds"
  shows "match_mask (CHR ''d'' # CHR ''d'' # CHR ''d'' # CHR ''d'' # ms) (ds @ cs) =
         match_mask ms cs"
proof -
  have "replicate (length ds) (CHR ''d'') = ''dddd''"
    by (simp add: assms(1) numeral_Bit0 numeral_eq_Suc)
  with match_mask_digits [OF assms(2), of ms cs] show ?thesis by simp
qed

lemma strftime_shape: "valid_datetime d \<Longrightarrow> timestamp_shape (strftime d)"
  by (simp add: valid_datetime_def timestamp_shape_def strftime_def match_four match_two
      match_two_end length_show_nat_4 show_nat_digits)

section \<open>Rounding\<close>

lemma round_half_even_nonneg: "0 \<le> x \<Longrightarrow> 0 \<le> round_half_even x"
  by (auto simp add: round_half_even_def Let_def)

lemma py_round3_nonneg: "0 \<le> x \<Longrightarrow> 0 \<le> py_round3 x"
  by (simp add: py_round3_def round_half_even_nonneg)

section \<open>One call of generate_response, component by component\<close>

lemma generate_response_result:
  "fst (generate_response self w env p mdl) =
     (let r = classify_reply (backend env \<lparr>rd_model = mdl, rd_prompt = p, rd_stream = False\<rparr>) in
      \<lparr>response = (if fst r = PNone then PStr (create_fallback_response (now_local env) p)
                   else fst r),
       model = (if fst r = PNone then PStr ''fallback-response'' else mdl),
       time_taken_seconds = py_round3 (time_end env - time_start env),
       offline = True,
       request_id = total_requests self + 1\<rparr>)"
  by (simp add: generate_response_def query_ollama_def Let_def split: prod.splits)

lemma generate_response_hub:
  "fst (snd (generate_response self w env p mdl)) =
     self\<lparr>total_requests := total_requests self + 1\<rparr>"
  by (simp add: generate_response_def query_ollama_def Let_def split: prod.splits)

lemma generate_response_world:
  "snd (snd (generate_response self w env p mdl)) =
     (let req = \<lparr>rd_model = mdl, rd_prompt = p, rd_stream = False\<rparr>;
          r = classify_reply (backend env req);
          self1 = self\<lparr>total_requests := total_requests self + 1\<rparr>;
          w2 = w\<lparr>trace := trace w @ [SetTotalRequests (total_requests self + 1), PostBackend req]\<rparr>
      in save_interaction self1 env w2 p
           (if fst r = PNone then PStr (create_fallback_response (now_local env) p) else fst r)
           (if fst r = PNone then PStr ''fallback-response'' else mdl)
           (time_end env - time_start env)
           (if fst r = PNone then snd r else None))"
  by (simp add: generate_response_def query_ollama_def Let_def split: prod.splits)

lemma any_in_time: "any_in [''time''] s = py_in ''time'' s"
  by (simp add: any_in_def)

section \<open>The fallback responder's rules\<close>

text \<open>
  Claim C5. The fallback rules are tried in the order greeting, identity, capability,
  time, generic, and the first rule with a trigger word occurring in the lowercased prompt
  gives the reply: the \<open>if\<close>/\<open>elif\<close> chain of the source computes what the ordered rule
  table of the specification computes. So a prompt with a greeting trigger and \<open>time\<close>
  gets the greeting reply, and a prompt that only the time rule matches gets a reply that
  embeds the clock reading in the shape \<open>YYYY-MM-DD HH:MM:SS\<close>.
\<close>

theorem fallback_first_match_wins:
  "create_fallback_response now p = spec_fallback now p \<and>
   (any_in [''hello'', ''hi'', ''hey''] (lower p) \<longrightarrow>
      create_fallback_response now p = greeting_reply) \<and>
   (\<not> any_in [''hello'', ''hi'', ''hey''] (lower p) \<and>
    any_in [''who'', ''what are you''] (lower p) \<longrightarrow>
      create_fallback_response now p = identity_reply) \<and>
   (\<not> any_in [''hello'', ''hi'', ''hey''] (lower p) \<and>
    \<not> any_in [''who'', ''what are you''] (lower p) \<and>
    any_in [''help'', ''what can you do''] (lower p) \<longrightarrow>
      create_fallback_response now p = capability_reply) \<and>
   (\<not> any_in [''hello'', ''hi'', ''hey''] (lower p) \<and>
    \<not> any_in [''who'', ''what are you''] (lower p) \<and>
    \<not> any_in [''help'', ''what can you do''] (lower p) \<and>
    py_in ''time'' (lower p) \<longrightarrow>
      create_fallback_response now p =
        ''It'' @ [CHR 0x27] @ ''s currently '' @ strftime now @ ''.'' \<and>
      (valid_datetime now \<longrightarrow> timestamp_shape (strftime now))) \<and>
   (\<not> any_in [''hello'', ''hi'', ''hey''] (lower p) \<and>
    \<not> any_in [''who'', ''what are you''] (lower p) \<and>
    \<not> any_in [''help'', ''what can you do''] (lower p) \<and>
    \<not> py_in ''time'' (lower p) \<longrightarrow>
      create_fallback_response now p = generic_reply p) \<and>
   (any_in [''hello'', ''hi'', ''hey''] (lower p) \<and> py_in ''time'' (lower p) \<longrightarrow>
      create_fallback_response now p = greeting_reply)"
proof -
  have table: "create_fallback_response now p = spec_fallback now p"
    by (simp add: create_fallback_response_def spec_fallback_def fallback_rules_def Let_def
        any_in_time)
  have chain: "create_fallback_response now p =
     (if any_in [''hello'', ''hi'', ''hey''] (lower p) then greeting_reply
      else if any_in [''who'', ''what are you''] (lower p) then identity_reply
      else if any_in [''help'', ''what can you do''] (lower p) then capability_reply
      else if py_in ''time'' (lower p) then time_reply now
      else generic_reply p)"
    by (simp add: create_fallback_response_def Let_def)
  show ?thesis
    using table strftime_shape [of now] by (simp add: chain time_reply_def)
qed

text \<open>
  The theorem at three prompts: an upper-case \<open>TIME\<close> reaches the time rule, a greeting
  word wins over \<open>time\<close>, and a prompt with no trigger word gets the generic reply.
\<close>

theorem fallback_first_match_wins_witness:
  "create_fallback_response
     \<lparr>year = 2024, month = 1, day = 5, hour = 3, minute = 4, second = 9\<rparr> ''What TIME is it?'' =
     ''It'' @ [CHR 0x27] @ ''s currently 2024-01-05 03:04:09.'' \<and>
   timestamp_shape ''2024-01-05 03:04:09'' \<and>
   create_fallback_response
     \<lparr>year = 2024, month = 1, day = 5, hour = 3, minute = 4, second = 9\<rparr>
     ''Hey, what time is it?'' = greeting_reply \<and>
   create_fallback_response
     \<lparr>year = 2024, month = 1, day = 5, hour = 3, minute = 4, second = 9\<rparr>
     ''Tell me a joke'' = generic_reply ''Tell me a joke''"
proof -
  let ?now = "\<lparr>year = 2024, month = 1, day = 5, hour = 3, minute = 4, second = 9\<rparr>"
  have v: "valid_datetime ?now"
    by (simp add: valid_datetime_def)
  have s: "strftime ?now = ''2024-01-05 03:04:09''"
    by code_simp
  have t: "\<not> any_in [''hello'', ''hi'', ''hey''] (lower ''What TIME is it?'')"
    "\<not> any_in [''who'', ''what are you''] (lower ''What TIME is it?'')"
    "\<not> any_in [''help'', ''what can you do''] (lower ''What TIME is it?'')"
    "py_in ''time'' (lower ''What TIME is it?'')"
    by code_simp+
  have g: "any_in [''hello'', ''hi'', ''hey''] (lower ''Hey, what time is it?'')"
    "py_in ''time'' (lower ''Hey, what time is it?'')"
    by code_simp+
  have j: "\<not> any_in [''hello'', ''hi'', ''hey''] (lower ''Tell me a joke'')"
    "\<not> any_in [''who'', ''what are you''] (lower ''Tell me a joke'')"
    "\<not> any_in [''help'', ''what can you do''] (lower ''Tell me a joke'')"
    "\<not> py_in ''time'' (lower ''Tell me a joke'')"
    by code_simp+
  from fallback_first_match_wins [of ?now "''What TIME is it?''"] t
  have a: "create_fallback_response ?now ''What TIME is it?'' =
        ''It'' @ [CHR 0x27] @ ''s currently '' @ strftime ?now @ ''.'' \<and>
      (valid_datetime ?now \<longrightarrow> timestamp_shape (strftime ?now))"
    by blast
  from a v s
  have 1: "create_fallback_response ?now ''What TIME is it?'' =
      ''It'' @ [CHR 0x27] @ ''s currently 2024-01-05 03:04:09.''"
    and 2: "timestamp_shape ''2024-01-05 03:04:09''"
    by simp_all
  from fallback_first_match_wins [of ?now "''Hey, what time is it?''"] g
  have 3: "create_fallback_response ?now ''Hey, what time is it?'' = greeting_reply"
    by blast
  from fallback_first_match_wins [of ?now "''Tell me a joke''"] j
  have 4: "create_fallback_response ?now ''Tell me a joke'' = generic_reply ''Tell me a joke''"
    by blast
  from 1 2 3 4 show ?thesis by blast
qed

text \<open>
  Claim C6 as stated fails: the time rule reads the clock, so the same prompt asked at two
  different seconds gets two different replies.
\<close>

theorem fallback_reply_depends_on_clock:
  "create_fallback_response
     \<lparr>year = 2024, month = 1, day = 5, hour = 3, minute = 4, second = 9\<rparr> ''What time is it?'' \<noteq>
   create_fallback_response
     \<lparr>year = 2024, month = 1, day = 5, hour = 3, minute = 4, second = 10\<rparr> ''What time is it?''"
  by code_simp

text \<open>
  Claim C6, amended. Two calls with the same prompt return the same reply when the clock
  reads the same formatted time at both, or when the prompt does not reach the time rule (a
  trigger of the rules before it occurs in the prompt, or \<open>time\<close> does not occur).
\<close>

theorem fallback_deterministic_given_clock:
  "(strftime now1 = strftime now2 \<or>
    any_in [''hello'', ''hi'', ''hey''] (lower p) \<or>
    any_in [''who'', ''what are you''] (lower p) \<or>
    any_in [''help'', ''what can you do''] (lower p) \<or>
    \<not> py_in ''time'' (lower p)) \<longrightarrow>
   create_fallback_response now1 p = create_fallback_response now2 p"
  by (auto simp add: create_fallback_response_def Let_def time_reply_def)

theorem fallback_deterministic_given_clock_witness:
  "create_fallback_response
     \<lparr>year = 2024, month = 1, day = 5, hour = 3, minute = 4, second = 9\<rparr> ''Tell me a joke'' =
   create_fallback_response
     \<lparr>year = 2025, month = 12, day = 25, hour = 23, minute = 59, second = 59\<rparr> ''Tell me a joke''"
proof -
  have "\<not> py_in ''time'' (lower ''Tell me a joke'')"
    by code_simp
  with fallback_deterministic_given_clock
    [of "\<lparr>year = 2024, month = 1, day = 5, hour = 3, minute = 4, second = 9\<rparr>"
        "\<lparr>year = 2025, month = 12, day = 25, hour = 23, minute = 59, second = 59\<rparr>"
        "''Tell me a joke''"]
  show ?thesis by blast
qed


section \<open>The log and the backend's failures\<close>

lemma log_file_save_interaction:
  "log_file (save_interaction self env w u a m t e) =
     (case log_write env of
        Written \<Rightarrow> log_file w @
          [\<lparr>le_timestamp = utc_timestamp env, le_user_input = u, le_ai_response = a,
            le_model = m, le_time_taken_seconds = py_round3 t, le_error = e,
            le_request_id = total_requests self\<rparr>]
      | WriteRaises x \<Rightarrow> log_file w)"
  by (simp add: save_interaction_def Let_def split: write_outcome.splits)

lemma trace_save_interaction:
  "trace (save_interaction self env w u a m t e) =
     trace w @
     [case log_write env of
        Written \<Rightarrow> AppendLog
          \<lparr>le_timestamp = utc_timestamp env, le_user_input = u, le_ai_response = a,
           le_model = m, le_time_taken_seconds = py_round3 t, le_error = e,
           le_request_id = total_requests self\<rparr>
      | WriteRaises x \<Rightarrow> PrintLine (''Could not save log: '' @ x)]"
  by (simp add: save_interaction_def Let_def split: write_outcome.splits)

lemma classify_failure:
  "reply = RaisesConnectionError \<or> reply = RaisesTimeout \<or>
   (\<exists>code b. reply = HttpReply code b \<and> code \<noteq> 200) \<Longrightarrow>
   classify_reply reply =
     (PNone, Some (case reply of
        RaisesConnectionError \<Rightarrow> ''Ollama isn'' @ [CHR 0x27] @ ''t running - please start it!''
      | RaisesTimeout \<Rightarrow> ''Request took too long''
      | HttpReply code b \<Rightarrow> ''Ollama API error: '' @ show_int code
      | RaisesOther e \<Rightarrow> ''Something went wrong: '' @ e))"
  by (auto simp add: classify_reply_def)

section \<open>Backend failure\<close>

text \<open>
  Claim C1. When the backend attempt fails (the connection is refused, the request times
  out, or the status is not 200), \<open>generate_response\<close> returns a result whose model is
  \<open>fallback-response\<close> and whose response is the fallback responder's reply to the same
  prompt. The call returns a result and raises nothing (the model has no error branch,
  as the source has none), and the result is the same whatever the failure was: the
  error text is in the log entry only.
\<close>

theorem backend_failure_falls_back:
  assumes "backend env \<lparr>rd_model = mdl, rd_prompt = p, rd_stream = False\<rparr> = reply"
    and "reply = RaisesConnectionError \<or> reply = RaisesTimeout \<or>
         (\<exists>code b. reply = HttpReply code b \<and> code \<noteq> 200)"
  shows "fst (generate_response self w env p mdl) =
           \<lparr>response = PStr (create_fallback_response (now_local env) p),
            model = PStr ''fallback-response'',
            time_taken_seconds = py_round3 (time_end env - time_start env),
            offline = True,
            request_id = total_requests self + 1\<rparr> \<and>
         (log_write env = Written \<longrightarrow>
            log_file (snd (snd (generate_response self w env p mdl))) =
              log_file w @
              [\<lparr>le_timestamp = utc_timestamp env,
                le_user_input = p,
                le_ai_response = PStr (create_fallback_response (now_local env) p),
                le_model = PStr ''fallback-response'',
                le_time_taken_seconds = py_round3 (time_end env - time_start env),
                le_error = Some (case reply of
                    RaisesConnectionError \<Rightarrow>
                      ''Ollama isn'' @ [CHR 0x27] @ ''t running - please start it!''
                  | RaisesTimeout \<Rightarrow> ''Request took too long''
                  | HttpReply code b \<Rightarrow> ''Ollama API error: '' @ show_int code
                  | RaisesOther e \<Rightarrow> ''Something went wrong: '' @ e),
                le_request_id = total_requests self + 1\<rparr>])"
proof -
  note c = classify_failure [OF assms(2)]
  have r: "fst (generate_response self w env p mdl) =
           \<lparr>response = PStr (create_fallback_response (now_local env) p),
            model = PStr ''fallback-response'',
            time_taken_seconds = py_round3 (time_end env - time_start env),
            offline = True,
            request_id = total_requests self + 1\<rparr>"
    by (simp add: generate_response_result assms(1) c)
  have l: "log_write env = Written \<Longrightarrow> ?thesis"
    using r by (simp add: generate_response_world assms(1) c log_file_save_interaction)
  show ?thesis using r l by blast
qed


text \<open>The theorem at a backend that answers 503 to the prompt \<open>Tell me a joke\<close>.\<close>

theorem backend_failure_falls_back_witness:
  "fst (generate_response \<lparr>start_time = 0, total_requests = 0\<rparr> \<lparr>log_file = [], trace = []\<rparr>
     \<lparr>time_start = 10, time_end = 12, backend = (\<lambda>r. HttpReply 503 (JsonRaises [])),
      now_local = \<lparr>year = 2024, month = 11, day = 5, hour = 3, minute = 4, second = 9\<rparr>,
      utc_timestamp = ''2024-11-05T03:04:09'', log_write = Written\<rparr>
     ''Tell me a joke'' (PStr ''llama2'')) =
     \<lparr>response = PStr (generic_reply ''Tell me a joke''),
      model = PStr ''fallback-response'',
      time_taken_seconds = 2,
      offline = True,
      request_id = 1\<rparr> \<and>
   map le_error (log_file (snd (snd
     (generate_response \<lparr>start_time = 0, total_requests = 0\<rparr> \<lparr>log_file = [], trace = []\<rparr>
       \<lparr>time_start = 10, time_end = 12, backend = (\<lambda>r. HttpReply 503 (JsonRaises [])),
        now_local = \<lparr>year = 2024, month = 11, day = 5, hour = 3, minute = 4, second = 9\<rparr>,
        utc_timestamp = ''2024-11-05T03:04:09'', log_write = Written\<rparr>
       ''Tell me a joke'' (PStr ''llama2''))))) = [Some ''Ollama API error: 503'']"
proof -
  let ?now = "\<lparr>year = 2024, month = 11, day = 5, hour = 3, minute = 4, second = 9\<rparr>"
  let ?env = "\<lparr>time_start = 10, time_end = 12, backend = (\<lambda>r. HttpReply 503 (JsonRaises [])),
      now_local = ?now, utc_timestamp = ''2024-11-05T03:04:09'', log_write = Written\<rparr>"
  have f: "create_fallback_response ?now ''Tell me a joke'' = generic_reply ''Tell me a joke''"
    by code_simp
  have n: "show_int 503 = ''503''"
    by code_simp
  have t: "py_round3 2 = 2"
    by code_simp
  from backend_failure_falls_back
    [of ?env "PStr ''llama2''" "''Tell me a joke''" "HttpReply 503 (JsonRaises [])"
        "\<lparr>start_time = 0, total_requests = 0\<rparr>" "\<lparr>log_file = [], trace = []\<rparr>"]
  show ?thesis by (simp add: f n t)
qed

section \<open>A sequence of calls\<close>

lemma run_calls_ids:
  "map request_id (fst (run_calls self w calls)) =
     map (\<lambda>k. total_requests self + 1 + int k) [0..<length calls]"
proof (induction calls arbitrary: self w)
  case Nil
  then show ?case by simp
next
  case (Cons c calls)
  obtain env p mdl where c: "c = (env, p, mdl)" by (cases c)
  obtain r self' w' where g: "generate_response self w env p mdl = (r, self', w')"
    by (cases "generate_response self w env p mdl")
  have r: "request_id r = total_requests self + 1"
    using generate_response_result [of self w env p mdl] g by (simp add: Let_def)
  have s: "total_requests self' = total_requests self + 1"
    using generate_response_hub [of self w env p mdl] g by simp
  obtain rs self'' w'' where rc: "run_calls self' w' calls = (rs, self'', w'')"
    by (cases "run_calls self' w' calls")
  from Cons.IH [of self' w'] rc
  have "map request_id rs = map (\<lambda>k. total_requests self' + 1 + int k) [0..<length calls]"
    by simp
  then show ?case
    by (simp add: c g rc r s map_upt_Suc del: upt_Suc)
qed

lemma increasing_ids: "sorted_wrt (<) (map (\<lambda>k. (a::int) + int k) [0..<n])"
  by (simp add: sorted_wrt_map sorted_wrt_upt [THEN sorted_wrt_mono_rel, rotated])


lemma generate_response_time:
  "time_start env \<le> time_end env \<Longrightarrow>
   0 \<le> time_taken_seconds (fst (generate_response self w env p mdl))"
  by (simp add: generate_response_result Let_def py_round3_nonneg)

lemma generate_response_trace:
  "\<exists>ev. trace (snd (snd (generate_response self w env p mdl))) =
     trace w @ [SetTotalRequests (total_requests self + 1),
                PostBackend \<lparr>rd_model = mdl, rd_prompt = p, rd_stream = False\<rparr>, ev] \<and>
     (\<forall>n. ev \<noteq> SetTotalRequests n) \<and> (\<forall>r. ev \<noteq> PostBackend r)"
  by (simp add: generate_response_world Let_def trace_save_interaction split: write_outcome.splits)

lemma generate_response_log_written:
  "log_write env = Written \<Longrightarrow>
   \<exists>e. log_file (snd (snd (generate_response self w env p mdl))) = log_file w @ [e] \<and>
       le_request_id e = request_id (fst (generate_response self w env p mdl))"
  by (simp add: generate_response_world generate_response_result Let_def log_file_save_interaction)

lemma generate_response_log_raises:
  "log_write env = WriteRaises x \<Longrightarrow>
   log_file (snd (snd (generate_response self w env p mdl))) = log_file w"
  by (simp add: generate_response_world Let_def log_file_save_interaction)

lemma run_calls_times:
  "\<forall>c \<in> set calls. time_start (fst c) \<le> time_end (fst c) \<Longrightarrow>
   \<forall>r \<in> set (fst (run_calls self w calls)). 0 \<le> time_taken_seconds r"
proof (induction calls arbitrary: self w)
  case Nil
  then show ?case by simp
next
  case (Cons c calls)
  obtain env p mdl where c: "c = (env, p, mdl)" by (cases c)
  obtain r self' w' where g: "generate_response self w env p mdl = (r, self', w')"
    by (cases "generate_response self w env p mdl")
  obtain rs self'' w'' where rc: "run_calls self' w' calls = (rs, self'', w'')"
    by (cases "run_calls self' w' calls")
  from Cons.prems c have "time_start env \<le> time_end env" by simp
  from generate_response_time [OF this, of self w p mdl] g
  have r: "0 \<le> time_taken_seconds r" by simp
  from Cons.IH [of self' w'] Cons.prems rc
  have "\<forall>r \<in> set rs. 0 \<le> time_taken_seconds r" by simp
  with r show ?case by (simp add: c g rc)
qed

lemma run_calls_log:
  "\<forall>c \<in> set calls. log_write (fst c) = Written \<Longrightarrow>
   \<exists>es. log_file (snd (snd (run_calls self w calls))) = log_file w @ es \<and>
        map le_request_id es = map request_id (fst (run_calls self w calls))"
proof (induction calls arbitrary: self w)
  case Nil
  then show ?case by simp
next
  case (Cons c calls)
  obtain env p mdl where c: "c = (env, p, mdl)" by (cases c)
  obtain r self' w' where g: "generate_response self w env p mdl = (r, self', w')"
    by (cases "generate_response self w env p mdl")
  obtain rs self'' w'' where rc: "run_calls self' w' calls = (rs, self'', w'')"
    by (cases "run_calls self' w' calls")
  from Cons.prems c have "log_write env = Written" by simp
  from generate_response_log_written [OF this, of self w p mdl] g
  obtain e where e: "log_file w' = log_file w @ [e]" "le_request_id e = request_id r"
    by auto
  from Cons.IH [of self' w'] Cons.prems rc
  obtain es where es: "log_file w'' = log_file w' @ es" "map le_request_id es = map request_id rs"
    by auto
  have "log_file w'' = log_file w @ (e # es) \<and>
        map le_request_id (e # es) = map request_id (r # rs)"
    using e es by simp
  then show ?case
    unfolding c by (simp only: run_calls.simps g rc prod.case fst_conv snd_conv) blast
qed

section \<open>Request identifiers and elapsed time\<close>

text \<open>
  Claim C2 as stated fails in its first part: the elapsed time is the difference of two
  readings of \<open>time.time()\<close>, the wall clock, which can be set back between them; the
  call then returns a negative \<open>time_taken_seconds\<close>.
\<close>

theorem clock_set_back_gives_negative_time:
  "time_taken_seconds (fst (generate_response \<lparr>start_time = 0, total_requests = 0\<rparr>
     \<lparr>log_file = [], trace = []\<rparr>
     \<lparr>time_start = 10, time_end = 9,
      backend = (\<lambda>r. HttpReply 200 (JsonOk (PDict [(''response'', PStr ''Hi!'')]))),
      now_local = \<lparr>year = 2024, month = 11, day = 5, hour = 3, minute = 4, second = 9\<rparr>,
      utc_timestamp = ''2024-11-05T03:04:09'', log_write = Written\<rparr>
     ''Tell me a joke'' (PStr ''llama2''))) < 0"
proof -
  have "py_round3 (- 1) = - 1"
    by code_simp
  then show ?thesis
    by (simp add: generate_response_result Let_def)
qed

text \<open>
  Claim C2, amended. The counter of a new instance is 0. Every call of
  \<open>generate_response\<close>, whatever the prompt, stores the counter plus one before it sends
  the request to the backend, stores the counter nowhere else, and returns the new value
  as its \<open>request_id\<close>; so in a sequence of calls on one instance each \<open>request_id\<close>
  is one more than the previous call's. The elapsed time is the rounded difference of the
  two readings of \<open>time.time()\<close>: it is not negative when the second reading is not
  earlier than the first.
\<close>

theorem request_ids_increase:
  "total_requests (LocalAIHub_init t) = 0 \<and>
   request_id (fst (generate_response self w env p mdl)) = total_requests self + 1 \<and>
   total_requests (fst (snd (generate_response self w env p mdl))) = total_requests self + 1 \<and>
   (\<exists>ev. trace (snd (snd (generate_response self w env p mdl))) =
           trace w @ [SetTotalRequests (total_requests self + 1),
                      PostBackend \<lparr>rd_model = mdl, rd_prompt = p, rd_stream = False\<rparr>, ev] \<and>
         (\<forall>n. ev \<noteq> SetTotalRequests n) \<and> (\<forall>r. ev \<noteq> PostBackend r)) \<and>
   (time_start env \<le> time_end env \<longrightarrow>
      0 \<le> time_taken_seconds (fst (generate_response self w env p mdl))) \<and>
   map request_id (fst (run_calls self w calls)) =
     map (\<lambda>k. total_requests self + 1 + int k) [0..<length calls] \<and>
   sorted_wrt (<) (total_requests self # map request_id (fst (run_calls self w calls))) \<and>
   ((\<forall>c \<in> set calls. time_start (fst c) \<le> time_end (fst c)) \<longrightarrow>
      (\<forall>r \<in> set (fst (run_calls self w calls)). 0 \<le> time_taken_seconds r))"
proof -
  have 1: "total_requests (LocalAIHub_init t) = 0"
    by (simp add: LocalAIHub_init_def)
  have 2: "request_id (fst (generate_response self w env p mdl)) = total_requests self + 1"
    by (simp add: generate_response_result Let_def)
  have 3: "total_requests (fst (snd (generate_response self w env p mdl))) =
      total_requests self + 1"
    by (simp add: generate_response_hub)
  have 7: "sorted_wrt (<) (total_requests self # map request_id (fst (run_calls self w calls)))"
    using increasing_ids [of "total_requests self + 1" "length calls"]
    by (auto simp add: run_calls_ids)
  show ?thesis
    using 1 2 3 generate_response_trace [of self w env p mdl] generate_response_time
      run_calls_ids [of self w calls] 7 run_calls_times [of calls self w]
    by blast
qed


text \<open>
  The theorem at two calls on a new instance, the first answered by the backend, the
  second falling back with a log write that fails.
\<close>

theorem request_ids_increase_witness:
  "map request_id (fst (run_calls (LocalAIHub_init 0) \<lparr>log_file = [], trace = []\<rparr>
     [(\<lparr>time_start = 10, time_end = 12,
        backend = (\<lambda>r. HttpReply 200 (JsonOk (PDict [(''response'', PStr ''Hi!'')]))),
        now_local = \<lparr>year = 2024, month = 11, day = 5, hour = 3, minute = 4, second = 9\<rparr>,
        utc_timestamp = ''2024-11-05T03:04:09'', log_write = Written\<rparr>,
       ''Hello there'', PStr ''llama2''),
      (\<lparr>time_start = 20, time_end = 41 / 2,
        backend = (\<lambda>r. RaisesConnectionError),
        now_local = \<lparr>year = 2024, month = 11, day = 5, hour = 3, minute = 4, second = 20\<rparr>,
        utc_timestamp = ''2024-11-05T03:04:20'', log_write = WriteRaises ''disk full''\<rparr>,
       ''Tell me a joke'', PStr ''llama2'')])) = [1, 2] \<and>
   list_all (\<lambda>r. 0 \<le> time_taken_seconds r)
     (fst (run_calls (LocalAIHub_init 0) \<lparr>log_file = [], trace = []\<rparr>
     [(\<lparr>time_start = 10, time_end = 12,
        backend = (\<lambda>r. HttpReply 200 (JsonOk (PDict [(''response'', PStr ''Hi!'')]))),
        now_local = \<lparr>year = 2024, month = 11, day = 5, hour = 3, minute = 4, second = 9\<rparr>,
        utc_timestamp = ''2024-11-05T03:04:09'', log_write = Written\<rparr>,
       ''Hello there'', PStr ''llama2''),
      (\<lparr>time_start = 20, time_end = 41 / 2,
        backend = (\<lambda>r. RaisesConnectionError),
        now_local = \<lparr>year = 2024, month = 11, day = 5, hour = 3, minute = 4, second = 20\<rparr>,
        utc_timestamp = ''2024-11-05T03:04:20'', log_write = WriteRaises ''disk full''\<rparr>,
       ''Tell me a joke'', PStr ''llama2'')]))"
proof -
  let ?c1 = "(\<lparr>time_start = 10, time_end = 12,
        backend = (\<lambda>r. HttpReply 200 (JsonOk (PDict [(''response'', PStr ''Hi!'')]))),
        now_local = \<lparr>year = 2024, month = 11, day = 5, hour = 3, minute = 4, second = 9\<rparr>,
        utc_timestamp = ''2024-11-05T03:04:09'', log_write = Written\<rparr>,
       ''Hello there'', PStr ''llama2'')"
  let ?c2 = "(\<lparr>time_start = 20, time_end = 41 / 2,
        backend = (\<lambda>r. RaisesConnectionError),
        now_local = \<lparr>year = 2024, month = 11, day = 5, hour = 3, minute = 4, second = 20\<rparr>,
        utc_timestamp = ''2024-11-05T03:04:20'', log_write = WriteRaises ''disk full''\<rparr>,
       ''Tell me a joke'', PStr ''llama2'')"
  let ?w = "\<lparr>log_file = [], trace = []\<rparr>"
  have clock: "\<forall>c \<in> set [?c1, ?c2]. time_start (fst c) \<le> time_end (fst c)"
    by simp
  have upt: "[0..<length [?c1, ?c2]] = [0, 1]"
    by (simp add: upt_rec)
  note th = request_ids_increase [of 0 "LocalAIHub_init 0" ?w "fst ?c1" "fst (snd ?c1)"
      "snd (snd ?c1)" "[?c1, ?c2]"]
  from th have ids: "map request_id (fst (run_calls (LocalAIHub_init 0) ?w [?c1, ?c2])) =
      map (\<lambda>k. total_requests (LocalAIHub_init 0) + 1 + int k) [0..<length [?c1, ?c2]]"
    by blast
  from th clock
  have "\<forall>r \<in> set (fst (run_calls (LocalAIHub_init 0) ?w [?c1, ?c2])). 0 \<le> time_taken_seconds r"
    by blast
  then have times: "list_all (\<lambda>r. 0 \<le> time_taken_seconds r)
      (fst (run_calls (LocalAIHub_init 0) ?w [?c1, ?c2]))"
    by (simp only: list_all_iff)
  from ids have "map request_id (fst (run_calls (LocalAIHub_init 0) ?w [?c1, ?c2])) = [1, 2]"
    by (simp only: upt) (simp add: LocalAIHub_init_def)
  with times show ?thesis by blast
qed

section \<open>Log records\<close>

text \<open>
  Claim C3 as stated fails: a call whose write to the log file raises appends no record.
\<close>

theorem failed_write_appends_no_record:
  "\<not> (\<exists>e. log_file (snd (snd (generate_response \<lparr>start_time = 0, total_requests = 0\<rparr>
         \<lparr>log_file = [], trace = []\<rparr>
         \<lparr>time_start = 20, time_end = 41 / 2,
          backend = (\<lambda>r. RaisesConnectionError),
          now_local = \<lparr>year = 2024, month = 11, day = 5, hour = 3, minute = 4, second = 20\<rparr>,
          utc_timestamp = ''2024-11-05T03:04:20'', log_write = WriteRaises ''disk full''\<rparr>
         ''Tell me a joke'' (PStr ''llama2'')))) =
       log_file \<lparr>log_file = [], trace = []\<rparr> @ [e])"
  by (simp add: generate_response_log_raises [where x = "''disk full''"])

text \<open>
  Claim C3, amended. A call of \<open>generate_response\<close> whose log write succeeds, on the
  backend's reply or on the fallback path alike, appends exactly one record, and its
  \<open>request_id\<close> is the one of the returned result; a call whose write raises leaves the
  file as it was. After a sequence of calls whose writes all succeed the file has one more
  record per call, in call order, with the results' \<open>request_id\<close>s, which increase.
\<close>

theorem successful_write_appends_one_record:
  "(log_write env = Written \<longrightarrow>
      (\<exists>e. log_file (snd (snd (generate_response self w env p mdl))) = log_file w @ [e] \<and>
           le_request_id e = request_id (fst (generate_response self w env p mdl)))) \<and>
   (\<forall>x. log_write env = WriteRaises x \<longrightarrow>
      log_file (snd (snd (generate_response self w env p mdl))) = log_file w) \<and>
   ((\<forall>c \<in> set calls. log_write (fst c) = Written) \<longrightarrow>
      (\<exists>es. log_file (snd (snd (run_calls self w calls))) = log_file w @ es \<and>
            length es = length calls \<and>
            map le_request_id es = map request_id (fst (run_calls self w calls)) \<and>
            sorted_wrt (<) (map le_request_id es)))"
proof -
  have seq: "\<exists>es. log_file (snd (snd (run_calls self w calls))) = log_file w @ es \<and>
            length es = length calls \<and>
            map le_request_id es = map request_id (fst (run_calls self w calls)) \<and>
            sorted_wrt (<) (map le_request_id es)"
    if written: "\<forall>c \<in> set calls. log_write (fst c) = Written"
  proof -
    from run_calls_log [OF written, of self w]
    obtain es where es: "log_file (snd (snd (run_calls self w calls))) = log_file w @ es"
      "map le_request_id es = map request_id (fst (run_calls self w calls))"
      by blast
    have ids: "map le_request_id es =
        map (\<lambda>k. total_requests self + 1 + int k) [0..<length calls]"
      using es(2) by (simp add: run_calls_ids)
    have "length (map le_request_id es) = length calls"
      by (simp only: ids length_map length_upt)
    then have len: "length es = length calls" by simp
    have "sorted_wrt (<) (map le_request_id es)"
      by (simp only: ids increasing_ids)
    with es len show ?thesis by blast
  qed
  show ?thesis
    using generate_response_log_written [of env self w p mdl]
      generate_response_log_raises [of env _ self w p mdl] seq
    by blast
qed

text \<open>The theorem at two calls, one answered by the backend and one falling back.\<close>

theorem successful_write_appends_one_record_witness:
  "map le_request_id (log_file (snd (snd (run_calls \<lparr>start_time = 0, total_requests = 0\<rparr>
     \<lparr>log_file = [], trace = []\<rparr>
     [(\<lparr>time_start = 10, time_end = 12,
        backend = (\<lambda>r. HttpReply 200 (JsonOk (PDict [(''response'', PStr ''Hi!'')]))),
        now_local = \<lparr>year = 2024, month = 11, day = 5, hour = 3, minute = 4, second = 9\<rparr>,
        utc_timestamp = ''2024-11-05T03:04:09'', log_write = Written\<rparr>,
       ''Hello there'', PStr ''llama2''),
      (\<lparr>time_start = 20, time_end = 41 / 2,
        backend = (\<lambda>r. RaisesConnectionError),
        now_local = \<lparr>year = 2024, month = 11, day = 5, hour = 3, minute = 4, second = 20\<rparr>,
        utc_timestamp = ''2024-11-05T03:04:20'', log_write = Written\<rparr>,
       ''Tell me a joke'', PStr ''llama2'')])))) = [1, 2]"
proof -
  let ?c1 = "(\<lparr>time_start = 10, time_end = 12,
        backend = (\<lambda>r. HttpReply 200 (JsonOk (PDict [(''response'', PStr ''Hi!'')]))),
        now_local = \<lparr>year = 2024, month = 11, day = 5, hour = 3, minute = 4, second = 9\<rparr>,
        utc_timestamp = ''2024-11-05T03:04:09'', log_write = Written\<rparr>,
       ''Hello there'', PStr ''llama2'')"
  let ?c2 = "(\<lparr>time_start = 20, time_end = 41 / 2,
        backend = (\<lambda>r. RaisesConnectionError),
        now_local = \<lparr>year = 2024, month = 11, day = 5, hour = 3, minute = 4, second = 20\<rparr>,
        utc_timestamp = ''2024-11-05T03:04:20'', log_write = Written\<rparr>,
       ''Tell me a joke'', PStr ''llama2'')"
  let ?w = "\<lparr>log_file = [], trace = []\<rparr>"
  let ?h = "\<lparr>start_time = 0, total_requests = 0\<rparr>"
  have written: "\<forall>c \<in> set [?c1, ?c2]. log_write (fst c) = Written"
    by simp
  have upt: "[0..<length [?c1, ?c2]] = [0, 1]"
    by (simp add: upt_rec)
  have ids: "map request_id (fst (run_calls ?h ?w [?c1, ?c2])) = [1, 2]"
    by (simp only: run_calls_ids upt) simp
  from successful_write_appends_one_record [of "fst ?c1" ?h ?w "fst (snd ?c1)" "snd (snd ?c1)"
      "[?c1, ?c2]"] written
  obtain es where "log_file (snd (snd (run_calls ?h ?w [?c1, ?c2]))) = log_file ?w @ es"
    "map le_request_id es = map request_id (fst (run_calls ?h ?w [?c1, ?c2]))"
    by blast
  with ids show ?thesis by simp
qed


section \<open>Validation of the prompt\<close>

lemma strip_empty_iff: "strip s = [] \<longleftrightarrow> list_all is_space s"
proof
  assume e: "strip s = []"
  show "list_all is_space s"
  proof (rule ccontr)
    assume "\<not> list_all is_space s"
    then have ne: "dropWhile is_space s \<noteq> []"
      by (simp add: list_all_iff)
    then have "\<not> is_space (hd (dropWhile is_space s))"
      by (rule hd_dropWhile)
    moreover have "hd (dropWhile is_space s) \<in> set (rev (dropWhile is_space s))"
      using ne by simp
    ultimately have "dropWhile is_space (rev (dropWhile is_space s)) \<noteq> []"
      by auto
    with e show False by (simp add: strip_def)
  qed
next
  assume "list_all is_space s"
  then have d: "dropWhile is_space s = []"
    by (simp only: list_all_iff dropWhile_eq_Nil_conv)
  show "strip s = []"
    by (simp only: strip_def d rev.simps dropWhile.simps)
qed

text \<open>
  Claim C4. For a prompt that is empty after trimming, that is, a string of whitespace
  characters only, the \<open>/generate\<close> handler answers 400 with the message
  \<open>Prompt cannot be empty\<close>, and the instance and the world are what they were:
  \<open>generate_response\<close> did not run, the counter is not incremented, nothing is sent to
  the backend and nothing is appended to the log.
\<close>

theorem blank_prompt_rejected:
  assumes "map_of data ''prompt'' = Some (PStr p)"
    and "strip p = []"
  shows "generate ai_hub w env (GetJson (Some data)) = (empty_prompt_reply, ai_hub, w) \<and>
         status empty_prompt_reply = 400 \<and>
         body empty_prompt_reply = ErrorBody ''Prompt cannot be empty'' \<and>
         list_all is_space p"
proof -
  from assms(1) have "data \<noteq> []" by auto
  with assms show ?thesis
    by (simp add: generate_def empty_prompt_reply_def strip_empty_iff [symmetric])
qed

text \<open>The theorem at a prompt of a space, a tab and a newline.\<close>

theorem blank_prompt_rejected_witness:
  "generate \<lparr>start_time = 0, total_requests = 7\<rparr>
     \<lparr>log_file = [], trace = []\<rparr>
     \<lparr>time_start = 10, time_end = 12,
      backend = (\<lambda>r. HttpReply 200 (JsonOk (PDict [(''response'', PStr ''Hi!'')]))),
      now_local = \<lparr>year = 2024, month = 11, day = 5, hour = 3, minute = 4, second = 9\<rparr>,
      utc_timestamp = ''2024-11-05T03:04:09'', log_write = Written\<rparr>
     (GetJson (Some [(''prompt'', PStr [CHR '' '', CHR 0x09, CHR 0x0A]), (''model'', PStr ''llama2'')])) =
   (empty_prompt_reply, \<lparr>start_time = 0, total_requests = 7\<rparr>, \<lparr>log_file = [], trace = []\<rparr>)"
proof -
  have s: "strip [CHR '' '', CHR 0x09, CHR 0x0A] = []"
    by code_simp
  have m: "map_of [(''prompt'', PStr [CHR '' '', CHR 0x09, CHR 0x0A]), (''model'', PStr ''llama2'')]
      ''prompt'' = Some (PStr [CHR '' '', CHR 0x09, CHR 0x0A])"
    by simp
  from blank_prompt_rejected [OF m s] show ?thesis by blast
qed

section \<open>Failure of the log write\<close>

text \<open>
  Claim C7. When writing the log line raises, \<open>_save_interaction\<close> prints
  \<open>Could not save log: ...\<close> and returns: the result of \<open>generate_response\<close>, the
  instance after it and the reply of the \<open>/generate\<close> handler are the ones of the same
  call with a write that succeeds; the log file is unchanged and the last effect of the
  call is the printed line.
\<close>

theorem logging_failure_is_swallowed:
  "fst (generate_response self w (env\<lparr>log_write := WriteRaises e\<rparr>) p mdl) =
     fst (generate_response self w (env\<lparr>log_write := Written\<rparr>) p mdl) \<and>
   fst (snd (generate_response self w (env\<lparr>log_write := WriteRaises e\<rparr>) p mdl)) =
     fst (snd (generate_response self w (env\<lparr>log_write := Written\<rparr>) p mdl)) \<and>
   log_file (snd (snd (generate_response self w (env\<lparr>log_write := WriteRaises e\<rparr>) p mdl))) =
     log_file w \<and>
   trace (snd (snd (generate_response self w (env\<lparr>log_write := WriteRaises e\<rparr>) p mdl))) =
     trace w @ [SetTotalRequests (total_requests self + 1),
                PostBackend \<lparr>rd_model = mdl, rd_prompt = p, rd_stream = False\<rparr>,
                PrintLine (''Could not save log: '' @ e)] \<and>
   fst (generate ai_hub w (env\<lparr>log_write := WriteRaises e\<rparr>) req) =
     fst (generate ai_hub w (env\<lparr>log_write := Written\<rparr>) req)"
proof -
  have r: "fst (generate_response s' w' (env\<lparr>log_write := WriteRaises e\<rparr>) p' m') =
     fst (generate_response s' w' (env\<lparr>log_write := Written\<rparr>) p' m')" for s' w' p' m'
    by (simp add: generate_response_result Let_def)
  have h: "fst (snd (generate_response self w (env\<lparr>log_write := WriteRaises e\<rparr>) p mdl)) =
     fst (snd (generate_response self w (env\<lparr>log_write := Written\<rparr>) p mdl))"
    by (simp add: generate_response_hub)
  have l: "log_file (snd (snd (generate_response self w (env\<lparr>log_write := WriteRaises e\<rparr>) p mdl))) =
     log_file w"
    by (simp add: generate_response_log_raises [where x = e])
  have t: "trace (snd (snd (generate_response self w (env\<lparr>log_write := WriteRaises e\<rparr>) p mdl))) =
     trace w @ [SetTotalRequests (total_requests self + 1),
                PostBackend \<lparr>rd_model = mdl, rd_prompt = p, rd_stream = False\<rparr>,
                PrintLine (''Could not save log: '' @ e)]"
    by (simp add: generate_response_world Let_def trace_save_interaction)
  have g: "fst (generate ai_hub w (env\<lparr>log_write := WriteRaises e\<rparr>) req) =
     fst (generate ai_hub w (env\<lparr>log_write := Written\<rparr>) req)"
    by (simp add: generate_def Let_def case_prod_beta r
        split: get_json_outcome.splits option.splits pyval.splits)
  from r h l t g show ?thesis by blast
qed

section \<open>A reply without the generated text\<close>

text \<open>
  Claim C8. When the backend replies 200 with a JSON object that has no \<open>response\<close>
  key, the call is a success: the response is the text \<open>No response generated\<close>, the
  model of the result is the requested model, and the logged error is \<open>None\<close>.
\<close>

theorem missing_response_field_is_success:
  assumes "backend env \<lparr>rd_model = mdl, rd_prompt = p, rd_stream = False\<rparr> =
             HttpReply 200 (JsonOk (PDict d))"
    and "map_of d ''response'' = None"
  shows "fst (generate_response self w env p mdl) =
           \<lparr>response = PStr ''No response generated'',
            model = mdl,
            time_taken_seconds = py_round3 (time_end env - time_start env),
            offline = True,
            request_id = total_requests self + 1\<rparr> \<and>
         (log_write env = Written \<longrightarrow>
            log_file (snd (snd (generate_response self w env p mdl))) =
              log_file w @
              [\<lparr>le_timestamp = utc_timestamp env,
                le_user_input = p,
                le_ai_response = PStr ''No response generated'',
                le_model = mdl,
                le_time_taken_seconds = py_round3 (time_end env - time_start env),
                le_error = None,
                le_request_id = total_requests self + 1\<rparr>])"
proof -
  have c: "classify_reply (HttpReply 200 (JsonOk (PDict d))) =
      (PStr ''No response generated'', None)"
    by (simp add: classify_reply_def get_response_def assms(2))
  show ?thesis
    by (simp add: generate_response_result generate_response_world assms(1) c
        log_file_save_interaction Let_def)
qed


text \<open>The theorem at a reply \<open>{"done": true}\<close> to a request for the model \<open>mistral\<close>.\<close>

theorem missing_response_field_is_success_witness:
  "fst (generate_response \<lparr>start_time = 0, total_requests = 4\<rparr> \<lparr>log_file = [], trace = []\<rparr>
     \<lparr>time_start = 10, time_end = 12,
      backend = (\<lambda>r. HttpReply 200 (JsonOk (PDict [(''done'', PBool True)]))),
      now_local = \<lparr>year = 2024, month = 11, day = 5, hour = 3, minute = 4, second = 9\<rparr>,
      utc_timestamp = ''2024-11-05T03:04:09'', log_write = Written\<rparr>
     ''Tell me a joke'' (PStr ''mistral'')) =
     \<lparr>response = PStr ''No response generated'',
      model = PStr ''mistral'',
      time_taken_seconds = 2,
      offline = True,
      request_id = 5\<rparr> \<and>
   map le_error (log_file (snd (snd
     (generate_response \<lparr>start_time = 0, total_requests = 4\<rparr> \<lparr>log_file = [], trace = []\<rparr>
       \<lparr>time_start = 10, time_end = 12,
        backend = (\<lambda>r. HttpReply 200 (JsonOk (PDict [(''done'', PBool True)]))),
        now_local = \<lparr>year = 2024, month = 11, day = 5, hour = 3, minute = 4, second = 9\<rparr>,
        utc_timestamp = ''2024-11-05T03:04:09'', log_write = Written\<rparr>
       ''Tell me a joke'' (PStr ''mistral''))))) = [None]"
proof -
  let ?env = "\<lparr>time_start = 10, time_end = 12,
      backend = (\<lambda>r. HttpReply 200 (JsonOk (PDict [(''done'', PBool True)]))),
      now_local = \<lparr>year = 2024, month = 11, day = 5, hour = 3, minute = 4, second = 9\<rparr>,
      utc_timestamp = ''2024-11-05T03:04:09'', log_write = Written\<rparr>"
  have t: "py_round3 2 = 2"
    by code_simp
  from missing_response_field_is_success
    [of ?env "PStr ''mistral''" "''Tell me a joke''" "[(''done'', PBool True)]"
        "\<lparr>start_time = 0, total_requests = 4\<rparr>" "\<lparr>log_file = [], trace = []\<rparr>"]
  show ?thesis by (simp add: t)
qed

section \<open>The prompt is not trimmed\<close>

lemma generate_accepted:
  assumes "map_of data ''prompt'' = Some (PStr p)"
    and "strip p \<noteq> []"
  shows "generate ai_hub w env (GetJson (Some data)) =
     (\<lparr>status = 200,
       body = ResultBody (fst (generate_response ai_hub w env p
         (case map_of data ''model'' of None \<Rightarrow> PStr DEFAULT_AI_MODEL | Some m \<Rightarrow> m)))\<rparr>,
      snd (generate_response ai_hub w env p
         (case map_of data ''model'' of None \<Rightarrow> PStr DEFAULT_AI_MODEL | Some m \<Rightarrow> m)))"
proof -
  from assms(1) have "data \<noteq> []" by auto
  with assms show ?thesis
    by (simp add: generate_def Let_def case_prod_beta)
qed

text \<open>
  Claim C10. For a prompt that is not empty after trimming, the handler calls
  \<open>generate_response\<close> with the prompt as it was sent: the request to the backend
  carries the untrimmed prompt, the fallback responder (when the backend gives no
  response) is applied to it, and it is the \<open>user_input\<close> of the log entry. Trimming
  is used for the validation check only.
\<close>

theorem prompt_passed_untrimmed:
  assumes "map_of data ''prompt'' = Some (PStr p)"
    and "strip p \<noteq> []"
    and "mdl = (case map_of data ''model'' of None \<Rightarrow> PStr DEFAULT_AI_MODEL | Some m \<Rightarrow> m)"
  shows "generate ai_hub w env (GetJson (Some data)) =
           (\<lparr>status = 200, body = ResultBody (fst (generate_response ai_hub w env p mdl))\<rparr>,
            snd (generate_response ai_hub w env p mdl)) \<and>
         (\<exists>ev. trace (snd (snd (generate ai_hub w env (GetJson (Some data))))) =
            trace w @ [SetTotalRequests (total_requests ai_hub + 1),
                       PostBackend \<lparr>rd_model = mdl, rd_prompt = p, rd_stream = False\<rparr>, ev]) \<and>
         (fst (classify_reply (backend env \<lparr>rd_model = mdl, rd_prompt = p, rd_stream = False\<rparr>)) =
            PNone \<longrightarrow>
          response (fst (generate_response ai_hub w env p mdl)) =
            PStr (create_fallback_response (now_local env) p)) \<and>
         (log_write env = Written \<longrightarrow>
          (\<exists>e. log_file (snd (snd (generate ai_hub w env (GetJson (Some data))))) =
                 log_file w @ [e] \<and> le_user_input e = p))"
proof -
  have g: "generate ai_hub w env (GetJson (Some data)) =
           (\<lparr>status = 200, body = ResultBody (fst (generate_response ai_hub w env p mdl))\<rparr>,
            snd (generate_response ai_hub w env p mdl))"
    using generate_accepted [OF assms(1) assms(2)] assms(3) by simp
  have t: "\<exists>ev. trace (snd (snd (generate ai_hub w env (GetJson (Some data))))) =
            trace w @ [SetTotalRequests (total_requests ai_hub + 1),
                       PostBackend \<lparr>rd_model = mdl, rd_prompt = p, rd_stream = False\<rparr>, ev]"
    using generate_response_trace [of ai_hub w env p mdl] by (auto simp add: g)
  have f: "fst (classify_reply (backend env \<lparr>rd_model = mdl, rd_prompt = p, rd_stream = False\<rparr>)) =
            PNone \<Longrightarrow>
          response (fst (generate_response ai_hub w env p mdl)) =
            PStr (create_fallback_response (now_local env) p)"
    by (simp add: generate_response_result Let_def)
  have l: "\<exists>e. log_file (snd (snd (generate ai_hub w env (GetJson (Some data))))) =
                 log_file w @ [e] \<and> le_user_input e = p"
    if "log_write env = Written"
    using that
    by (simp add: g generate_response_world Let_def log_file_save_interaction)
  from g t f l show ?thesis by blast
qed

text \<open>
  The theorem at a prompt with two leading and two trailing spaces: the second effect of
  the call is the request to the backend, with the spaces in its prompt.
\<close>

theorem prompt_passed_untrimmed_witness:
  "trace (snd (snd (generate \<lparr>start_time = 0, total_requests = 0\<rparr>
     \<lparr>log_file = [], trace = []\<rparr>
     \<lparr>time_start = 10, time_end = 12,
      backend = (\<lambda>r. HttpReply 200 (JsonOk (PDict [(''response'', PStr (rd_prompt r))]))),
      now_local = \<lparr>year = 2024, month = 11, day = 5, hour = 3, minute = 4, second = 9\<rparr>,
      utc_timestamp = ''2024-11-05T03:04:09'', log_write = Written\<rparr>
     (GetJson (Some [(''prompt'', PStr ''  Tell me a joke  '')]))))) ! 1 =
     PostBackend \<lparr>rd_model = PStr ''llama2'', rd_prompt = ''  Tell me a joke  '',
                  rd_stream = False\<rparr> \<and>
   map le_user_input (log_file (snd (snd (generate \<lparr>start_time = 0, total_requests = 0\<rparr>
     \<lparr>log_file = [], trace = []\<rparr>
     \<lparr>time_start = 10, time_end = 12,
      backend = (\<lambda>r. HttpReply 200 (JsonOk (PDict [(''response'', PStr (rd_prompt r))]))),
      now_local = \<lparr>year = 2024, month = 11, day = 5, hour = 3, minute = 4, second = 9\<rparr>,
      utc_timestamp = ''2024-11-05T03:04:09'', log_write = Written\<rparr>
     (GetJson (Some [(''prompt'', PStr ''  Tell me a joke  '')])))))) = [''  Tell me a joke  '']"
proof -
  let ?env = "\<lparr>time_start = 10, time_end = 12,
      backend = (\<lambda>r. HttpReply 200 (JsonOk (PDict [(''response'', PStr (rd_prompt r))]))),
      now_local = \<lparr>year = 2024, month = 11, day = 5, hour = 3, minute = 4, second = 9\<rparr>,
      utc_timestamp = ''2024-11-05T03:04:09'', log_write = Written\<rparr>"
  let ?data = "[(''prompt'', PStr ''  Tell me a joke  '')]"
  let ?h = "\<lparr>start_time = 0, total_requests = 0\<rparr>"
  let ?w = "\<lparr>log_file = [], trace = []\<rparr>"
  have s: "strip ''  Tell me a joke  '' \<noteq> []"
    by code_simp
  have m: "map_of ?data ''prompt'' = Some (PStr ''  Tell me a joke  '')"
    by simp
  have d: "PStr ''llama2'' =
      (case map_of ?data ''model'' of None \<Rightarrow> PStr DEFAULT_AI_MODEL | Some m \<Rightarrow> m)"
    by (simp add: DEFAULT_AI_MODEL_def)
  note th = prompt_passed_untrimmed [OF m s d, of ?h ?w ?env]
  from th obtain ev where
    "trace (snd (snd (generate ?h ?w ?env (GetJson (Some ?data))))) =
       trace ?w @ [SetTotalRequests (total_requests ?h + 1),
         PostBackend \<lparr>rd_model = PStr ''llama2'', rd_prompt = ''  Tell me a joke  '',
                      rd_stream = False\<rparr>, ev]"
    by blast
  then have 1: "trace (snd (snd (generate ?h ?w ?env (GetJson (Some ?data))))) ! 1 =
      PostBackend \<lparr>rd_model = PStr ''llama2'', rd_prompt = ''  Tell me a joke  '',
                   rd_stream = False\<rparr>"
    by simp
  from th obtain e where
    "log_file (snd (snd (generate ?h ?w ?env (GetJson (Some ?data))))) = log_file ?w @ [e]"
    "le_user_input e = ''  Tell me a joke  ''"
    by auto
  then have 2: "map le_user_input (log_file (snd (snd (generate ?h ?w ?env
      (GetJson (Some ?data)))))) = [''  Tell me a joke  '']"
    by simp
  from 1 2 show ?thesis by blast
qed


section \<open>Request identifiers of overlapping calls\<close>

lemma run_schedule_append: "run_schedule (a @ b) s = run_schedule b (run_schedule a s)"
  by (simp add: run_schedule_def)

lemma run_one_call:
  assumes "i < length pcs" and "pcs ! i = NotStarted"
  shows "run_schedule [i, i, i] (c, pcs) = (c + 1, pcs[i := Returned (c + 1)])"
  using assms by (simp add: run_schedule_def step_schedule_def)

lemma sequential_schedule_Suc:
  "sequential_schedule (Suc k) = sequential_schedule k @ [k, k, k]"
  by (simp add: sequential_schedule_def)

lemma run_sequential_prefix:
  "k \<le> n \<Longrightarrow>
   run_schedule (sequential_schedule k) (c, replicate n NotStarted) =
     (c + int k, map (\<lambda>i. Returned (c + 1 + int i)) [0..<k] @ replicate (n - k) NotStarted)"
proof (induction k)
  case 0
  then show ?case by (simp add: sequential_schedule_def run_schedule_def)
next
  case (Suc k)
  let ?done = "map (\<lambda>i. Returned (c + 1 + int i)) [0..<k]"
  let ?pcs = "?done @ replicate (n - k) NotStarted"
  from Suc.prems have k: "k < n" by simp
  then have rest: "replicate (n - k) NotStarted = NotStarted # replicate (n - Suc k) NotStarted"
    by (cases "n - k") (simp_all add: Suc_diff_Suc)
  have len: "length ?done = k" by simp
  have i: "k < length ?pcs" using k by simp
  have at: "?pcs ! k = NotStarted"
    using k by (simp add: nth_append)
  have upd: "?pcs[k := Returned (c + int k + 1)] =
      map (\<lambda>i. Returned (c + 1 + int i)) [0..<Suc k] @ replicate (n - Suc k) NotStarted"
    using len by (simp add: rest list_update_append add.commute add.left_commute)
  from Suc.IH k
  have "run_schedule (sequential_schedule (Suc k)) (c, replicate n NotStarted) =
      run_schedule [k, k, k] (c + int k, ?pcs)"
    by (simp add: sequential_schedule_Suc run_schedule_append)
  also have "\<dots> = (c + int k + 1, ?pcs[k := Returned (c + int k + 1)])"
    by (rule run_one_call [OF i at])
  finally show ?case
    by (simp only: upd) simp
qed

lemma run_sequential:
  "run_schedule (sequential_schedule n) (c, replicate n NotStarted) =
     (c + int n, map (\<lambda>i. Returned (c + 1 + int i)) [0..<n])"
  using run_sequential_prefix [of n n c] by simp

text \<open>
  Claim C9 as stated fails: the increment (line 100) and the read for the result (line
  123) are two steps with no lock around them. When a second call increments the counter
  between the two steps of the first, both calls return the same \<open>request_id\<close>: here
  two calls on a new instance both return 2, and no call returns 1. Each call's own
  load and store are adjacent in this schedule, so an atomic increment alone would not
  help.
\<close>

theorem overlapping_calls_share_request_id:
  "run_schedule [0, 0, 1, 1, 0, 1] (0, [NotStarted, NotStarted]) = (2, [Returned 2, Returned 2]) \<and>
   \<not> distinct (snd (run_schedule [0, 0, 1, 1, 0, 1] (0, [NotStarted, NotStarted])))"
proof -
  have "run_schedule [0, 0, 1, 1, 0, 1] (0, [NotStarted, NotStarted]) =
      (2, [Returned 2, Returned 2])"
    by (simp add: run_schedule_def step_schedule_def)
  then show ?thesis by simp
qed

text \<open>
  Claim C9, amended. When the calls do not overlap (each call makes its increment and
  its read before the next call starts), \<open>n\<close> calls on a counter that reads \<open>c\<close>
  return the identifiers \<open>c + 1\<close>, ..., \<open>c + n\<close>, with no duplicate and no gap, and
  leave the counter at \<open>c + n\<close>; these are the \<open>request_id\<close>s that a sequence of calls
  of \<open>generate_response\<close> returns.
\<close>

theorem sequential_calls_get_distinct_ids:
  "run_schedule (sequential_schedule n) (c, replicate n NotStarted) =
     (c + int n, map (\<lambda>i. Returned (c + 1 + int i)) [0..<n]) \<and>
   distinct (snd (run_schedule (sequential_schedule n) (c, replicate n NotStarted))) \<and>
   map Returned (map request_id (fst (run_calls self w calls))) =
     snd (run_schedule (sequential_schedule (length calls))
            (total_requests self, replicate (length calls) NotStarted)) \<and>
   distinct (map request_id (fst (run_calls self w calls)))"
proof -
  have inj: "inj_on (\<lambda>i. Returned (c + 1 + int i)) A" for c A
    by (rule inj_onI) simp
  have 2: "distinct (snd (run_schedule (sequential_schedule n) (c, replicate n NotStarted)))"
    by (simp add: run_sequential distinct_map inj)
  have inj': "inj_on (\<lambda>k. total_requests self + 1 + int k) A" for A
    by (rule inj_onI) simp
  have 4: "distinct (map request_id (fst (run_calls self w calls)))"
    by (simp only: run_calls_ids distinct_map distinct_upt inj')
  have 3: "map Returned (map request_id (fst (run_calls self w calls))) =
     snd (run_schedule (sequential_schedule (length calls))
            (total_requests self, replicate (length calls) NotStarted))"
    by (simp add: run_sequential run_calls_ids)
  from run_sequential [of n c] 2 3 4 show ?thesis by blast
qed


end
